theory Spec2Isabelle
  imports Main "HOL-Library.Sublist"
begin

section \<open>Results, exceptions and JavaScript primitives\<close>

text \<open>
  The handlers of \<^verbatim>\<open>CustomOperations.ts\<close> signal a failure in two ways. A helper returns
  a tuple whose last component is an HTTP response \<^verbatim>\<open>{ status: n }\<close>, which the handler
  hands back unchanged (\<open>HttpError n\<close>); or an expression throws, which rejects the promise
  of the handler. Reading a property of \<^verbatim>\<open>undefined\<close> and calling a method on
  \<^verbatim>\<open>undefined\<close> throw a \<open>TypeError\<close>; \<^verbatim>\<open>jwtDecode\<close> throws an \<open>InvalidTokenError\<close>;
  \<^verbatim>\<open>fetch\<close> and \<^verbatim>\<open>json()\<close> reject with \<open>FetchError\<close>. A result is \<open>error + 'a\<close> with
  \<open>Inl\<close> the failure.
\<close>

datatype error = TypeError | InvalidTokenError | FetchError | HttpError nat

text \<open>\<^verbatim>\<open>a || b\<close> and \<^verbatim>\<open>a && b\<close> on booleans: the right operand is evaluated only when the
  left one does not decide, so only then can it throw.\<close>

definition or' :: "error + bool \<Rightarrow> error + bool \<Rightarrow> error + bool" where
  "or' a b = (case a of Inl e \<Rightarrow> Inl e | Inr x \<Rightarrow> if x then Inr True else b)"

definition and' :: "error + bool \<Rightarrow> error + bool \<Rightarrow> error + bool" where
  "and' a b = (case a of Inl e \<Rightarrow> Inl e | Inr x \<Rightarrow> if x then b else Inr False)"

text \<open>\<^verbatim>\<open>Array.prototype.some\<close> with a callback that may throw: elements are visited in order,
  the first \<^verbatim>\<open>true\<close> ends the visit, a throw ends it with the exception.\<close>

fun some' :: "('a \<Rightarrow> error + bool) \<Rightarrow> 'a list \<Rightarrow> error + bool" where
  "some' f [] = Inr False"
| "some' f (x # xs) = or' (f x) (some' f xs)"

text \<open>\<^verbatim>\<open>Array.prototype.filter\<close> with a callback that may throw: every element is visited in
  order; the first throw ends the visit with the exception.\<close>

fun filter' :: "('a \<Rightarrow> error + bool) \<Rightarrow> 'a list \<Rightarrow> error + 'a list" where
  "filter' f [] = Inr []"
| "filter' f (x # xs) =
     (case f x of
        Inl e \<Rightarrow> Inl e
      | Inr b \<Rightarrow> (case filter' f xs of
                    Inl e \<Rightarrow> Inl e
                  | Inr ys \<Rightarrow> Inr (if b then x # ys else ys)))"

text \<open>\<^verbatim>\<open>String(x)\<close> for a value that is a string or \<^verbatim>\<open>undefined\<close>; string concatenation and
  the argument of \<^verbatim>\<open>endsWith\<close> convert this way.\<close>

definition str :: "string option \<Rightarrow> string" where
  "str x = (case x of None \<Rightarrow> ''undefined'' | Some s \<Rightarrow> s)"

text \<open>\<^verbatim>\<open>s.endsWith(searchString)\<close> on two strings.\<close>

definition endsWith :: "string \<Rightarrow> string \<Rightarrow> bool" where
  "endsWith s searchString = suffix searchString s"

section \<open>Data model\<close>

text \<open>
  The resource types are those of the FHIR R4 typings the source imports. Only the
  properties the source reads are kept. A property the typings declare optional is an
  \<open>option\<close>, \<open>None\<close> being \<^verbatim>\<open>undefined\<close>; the role and the reference of an actor grant
  are mandatory there. Names that clash are changed: \<open>id'\<close> is \<^verbatim>\<open>id\<close>,
  \<open>identifier'\<close> is \<^verbatim>\<open>Practitioner.identifier\<close>,
  \<open>value'\<close> is \<^verbatim>\<open>Identifier.value\<close>, \<open>actorReference\<close> is \<^verbatim>\<open>Consent.provision.actor.reference\<close>,
  \<open>provisionType\<close> is \<^verbatim>\<open>Consent.provision.type\<close>, \<open>consentPatient\<close> is \<^verbatim>\<open>Consent.patient\<close>,
  \<open>resourceType'\<close> and \<open>bundleType\<close> are \<^verbatim>\<open>Bundle.resourceType\<close> and \<^verbatim>\<open>Bundle.type\<close>.
\<close>

record Reference =
  reference :: "string option"

record Identifier =
  value' :: "string option"

record Coding =
  code :: "string option"

record CodeableConcept =
  coding :: "Coding list option"

record ConsentProvisionActor =
  role :: CodeableConcept
  actorReference :: Reference

record ConsentProvision =
  provisionType :: "string option"
  actor :: "ConsentProvisionActor list option"

record Resource =
  id' :: "string option"

record fhirPatient = Resource +
  managingOrganization :: "Reference option"

record fhirDevice = Resource +
  patient :: "Reference option"
  owner :: "Reference option"

record fhirObservation = Resource +
  subject :: "Reference option"
  device :: "Reference option"

record Practitioner = Resource +
  identifier' :: "Identifier list option"

record PractitionerRole = Resource +
  practitioner :: "Reference option"
  organization :: "Reference option"

record Consent = Resource +
  consentPatient :: "Reference option"
  provision :: "ConsentProvision option"

text \<open>\<^verbatim>\<open>FhirResource\<close> is the union of the resource types, told apart by \<^verbatim>\<open>resourceType\<close>.
  \<open>OtherResource\<close> stands for every kind the handlers never ask for.\<close>

datatype FhirResource =
    PatientResource fhirPatient
  | DeviceResource fhirDevice
  | ObservationResource fhirObservation
  | PractitionerResource Practitioner
  | PractitionerRoleResource PractitionerRole
  | ConsentResource Consent
  | OtherResource Resource

fun resourceType :: "FhirResource \<Rightarrow> string" where
  "resourceType (PatientResource r) = ''Patient''"
| "resourceType (DeviceResource r) = ''Device''"
| "resourceType (ObservationResource r) = ''Observation''"
| "resourceType (PractitionerResource r) = ''Practitioner''"
| "resourceType (PractitionerRoleResource r) = ''PractitionerRole''"
| "resourceType (ConsentResource r) = ''Consent''"
| "resourceType (OtherResource r) = ''OperationOutcome''"

fun resourceId :: "FhirResource \<Rightarrow> string option" where
  "resourceId (PatientResource r) = id' r"
| "resourceId (DeviceResource r) = id' r"
| "resourceId (ObservationResource r) = id' r"
| "resourceId (PractitionerResource r) = id' r"
| "resourceId (PractitionerRoleResource r) = id' r"
| "resourceId (ConsentResource r) = id' r"
| "resourceId (OtherResource r) = id' r"

record BundleEntrySearch =
  mode :: "string option"

record BundleEntry =
  fullUrl :: "string option"
  resource :: "FhirResource option"
  search :: "BundleEntrySearch option"

record Bundle =
  resourceType' :: "string option"
  bundleType :: "string option"
  entry :: "BundleEntry list option"

record JwtCustomPayload =
  oid :: "string option"

text \<open>Of the request the handlers read the URL (to log it) and the Authorization header;
  \<^verbatim>\<open>headers.get\<close> yields \<^verbatim>\<open>null\<close> (\<open>None\<close>) when the header is absent.\<close>

record HttpRequest =
  url :: string
  authorization :: "string option"

text \<open>The casts \<^verbatim>\<open>entry.resource as T\<close>: the members of the union that are of kind \<open>T\<close>.\<close>

fun asPatients :: "FhirResource list \<Rightarrow> fhirPatient list" where
  "asPatients [] = []"
| "asPatients (PatientResource r # rs) = r # asPatients rs"
| "asPatients (x # rs) = asPatients rs"

fun asDevices :: "FhirResource list \<Rightarrow> fhirDevice list" where
  "asDevices [] = []"
| "asDevices (DeviceResource r # rs) = r # asDevices rs"
| "asDevices (x # rs) = asDevices rs"

fun asObservations :: "FhirResource list \<Rightarrow> fhirObservation list" where
  "asObservations [] = []"
| "asObservations (ObservationResource r # rs) = r # asObservations rs"
| "asObservations (x # rs) = asObservations rs"

fun asPractitioners :: "FhirResource list \<Rightarrow> Practitioner list" where
  "asPractitioners [] = []"
| "asPractitioners (PractitionerResource r # rs) = r # asPractitioners rs"
| "asPractitioners (x # rs) = asPractitioners rs"

fun asPractitionerRoles :: "FhirResource list \<Rightarrow> PractitionerRole list" where
  "asPractitionerRoles [] = []"
| "asPractitionerRoles (PractitionerRoleResource r # rs) = r # asPractitionerRoles rs"
| "asPractitionerRoles (x # rs) = asPractitionerRoles rs"

fun asConsents :: "FhirResource list \<Rightarrow> Consent list" where
  "asConsents [] = []"
| "asConsents (ConsentResource r # rs) = r # asConsents rs"
| "asConsents (x # rs) = asConsents rs"

section \<open>The functions of CustomOperations.ts\<close>

definition fhirURL :: string where
  "fhirURL = ''https://b2324health-fhirdata.fhir.azurehealthcareapis.com''"

text \<open>\<^verbatim>\<open>x.reference.endsWith(searchString)\<close> for a property \<open>x\<close> of type Reference that may be
  \<^verbatim>\<open>undefined\<close>: reading \<^verbatim>\<open>reference\<close> of \<^verbatim>\<open>undefined\<close> throws, and so does calling
  \<^verbatim>\<open>endsWith\<close> on an \<^verbatim>\<open>undefined\<close> reference string.\<close>

definition referenceEndsWith :: "Reference option \<Rightarrow> string \<Rightarrow> error + bool" where
  "referenceEndsWith x searchString =
     (case x of
        None \<Rightarrow> Inl TypeError
      | Some r \<Rightarrow> (case reference r of
                     None \<Rightarrow> Inl TypeError
                   | Some s \<Rightarrow> Inr (endsWith s searchString)))"

text \<open>\<^verbatim>\<open>x.reference\<close> for a property \<open>x\<close> that may be \<^verbatim>\<open>undefined\<close>.\<close>

definition referenceOf :: "Reference option \<Rightarrow> error + string option" where
  "referenceOf x = (case x of None \<Rightarrow> Inl TypeError | Some r \<Rightarrow> Inr (reference r))"

text \<open>\<^verbatim>\<open>getAuthTokenAndUserId\<close> (lines 161 to 168). \<^verbatim>\<open>jwtDecode\<close> is the imported decoder,
  a parameter here: it yields the claims of a token, or throws an \<open>InvalidTokenError\<close> on
  a token it cannot decode (\<open>None\<close>). It checks no signature. The empty string is falsy,
  so an empty header is answered like an absent one. The claims are a JSON object; a token
  whose payload is the JSON value \<^verbatim>\<open>null\<close>, on which reading \<^verbatim>\<open>oid\<close> would throw a
  TypeError, is not among the tokens of this model.\<close>

definition getAuthTokenAndUserId ::
  "(string \<Rightarrow> JwtCustomPayload option) \<Rightarrow> HttpRequest \<Rightarrow> error + (string \<times> string option)" where
  "getAuthTokenAndUserId jwtDecode request =
     (case authorization request of
        None \<Rightarrow> Inl (HttpError 401)
      | Some authToken \<Rightarrow>
          if authToken = [] then Inl (HttpError 401)
          else (case jwtDecode authToken of
                  None \<Rightarrow> Inl InvalidTokenError
                | Some payload \<Rightarrow> Inr (authToken, oid payload)))"

text \<open>\<^verbatim>\<open>getSearchBundle\<close> (lines 170 to 180).\<close>

definition getSearchBundle :: "FhirResource list \<Rightarrow> Bundle" where
  "getSearchBundle ressources =
     \<lparr> resourceType' = Some ''Bundle'',
       bundleType = Some ''searchset'',
       entry = Some (map (\<lambda>ressource.
                 \<lparr> fullUrl = Some (fhirURL @ ''/'' @ resourceType ressource @ ''/'' @ str (resourceId ressource)),
                   resource = Some ressource,
                   search = Some \<lparr> mode = Some ''match'' \<rparr> \<rparr>) ressources) \<rparr>"

text \<open>\<^verbatim>\<open>getRessources\<close> (lines 182 to 195). \<open>fetch url authToken\<close> is the body that
  \<^verbatim>\<open>ressourceResponse.json()\<close> yields for a GET of \<open>url\<close> with the Authorization header
  \<open>authToken\<close>, or the exception of a failed request. The body \<open>None\<close> is the JSON value
  \<^verbatim>\<open>null\<close>, on which reading \<^verbatim>\<open>resourceType\<close> throws; every other JSON value is a
  record whose tag, entry list and entry resources may each be missing (a number, a string
  or an array has none of them). The cast to Bundle checks nothing. The filter throws on an
  entry without a resource, so every entry it keeps has one, and the final \<^verbatim>\<open>map\<close> reads
  the resources of the kept entries.\<close>

definition getRessources ::
  "(string \<Rightarrow> string \<Rightarrow> error + Bundle option) \<Rightarrow> string \<Rightarrow> string \<Rightarrow> error + FhirResource list" where
  "getRessources fetch authToken endpoint =
     (case fetch (fhirURL @ ''/'' @ endpoint) authToken of
        Inl e \<Rightarrow> Inl e
      | Inr None \<Rightarrow> Inl TypeError
      | Inr (Some ressourceBody) \<Rightarrow>
          if resourceType' ressourceBody \<noteq> Some ''Bundle'' then Inl (HttpError 500)
          else (case entry ressourceBody of
                  None \<Rightarrow> Inl TypeError
                | Some entries \<Rightarrow>
                    (case filter' (\<lambda>ent. case resource ent of
                                           None \<Rightarrow> Inl TypeError
                                         | Some res \<Rightarrow> Inr (resourceType res = endpoint)) entries of
                       Inl e \<Rightarrow> Inl e
                     | Inr kept \<Rightarrow> Inr (List.map_filter resource kept))))"

text \<open>\<^verbatim>\<open>getUserPractitionerRole\<close> (lines 197 to 207).\<close>

definition getUserPractitionerRole ::
  "(string \<Rightarrow> string \<Rightarrow> error + Bundle option) \<Rightarrow> string \<Rightarrow> Practitioner \<Rightarrow> error + PractitionerRole" where
  "getUserPractitionerRole fetch authToken userPractitioner =
     (case getRessources fetch authToken ''PractitionerRole'' of
        Inl fetchError \<Rightarrow> Inl fetchError
      | Inr ressources \<Rightarrow>
          (case filter' (\<lambda>practitionerRole.
                           referenceEndsWith (practitioner practitionerRole)
                             (''Practitioner/'' @ str (id' userPractitioner)))
                        (asPractitionerRoles ressources) of
             Inl e \<Rightarrow> Inl e
           | Inr filteredPractitioners \<Rightarrow>
               if length filteredPractitioners \<noteq> 1 then Inl (HttpError 500)
               else Inr (filteredPractitioners ! 0)))"

text \<open>\<^verbatim>\<open>getUserPractitioner\<close> (lines 209 to 219). The callback cannot throw: the optional
  chaining yields \<^verbatim>\<open>undefined\<close>, which is falsy, for a practitioner without identifiers,
  and \<^verbatim>\<open>===\<close> compares a missing value with a missing user id as equal.\<close>

definition getUserPractitioner ::
  "(string \<Rightarrow> string \<Rightarrow> error + Bundle option) \<Rightarrow> string \<Rightarrow> string option \<Rightarrow> error + Practitioner" where
  "getUserPractitioner fetch authToken userId =
     (case getRessources fetch authToken ''Practitioner'' of
        Inl fetchError \<Rightarrow> Inl fetchError
      | Inr ressources \<Rightarrow>
          (let filteredPractitioners =
                 filter (\<lambda>pr. case identifier' pr of
                                 None \<Rightarrow> False
                               | Some identifiers \<Rightarrow> list_ex (\<lambda>ident. value' ident = userId) identifiers)
                        (asPractitioners ressources)
           in if length filteredPractitioners \<noteq> 1 then Inl (HttpError 403)
              else Inr (filteredPractitioners ! 0)))"

text \<open>\<^verbatim>\<open>isPatientInPractitionerOrganization\<close> (lines 221 to 223). The left operand uses
  optional chaining and cannot throw; the right operand reads \<^verbatim>\<open>reference\<close> of
  \<^verbatim>\<open>practitionerRole.organization\<close> unguarded.\<close>

definition isPatientInPractitionerOrganization ::
  "fhirPatient \<Rightarrow> PractitionerRole \<Rightarrow> error + bool" where
  "isPatientInPractitionerOrganization pat practitionerRole =
     (let lhs = (case managingOrganization pat of None \<Rightarrow> None | Some m \<Rightarrow> reference m)
      in case referenceOf (organization practitionerRole) of
           Inl e \<Rightarrow> Inl e
         | Inr rhs \<Rightarrow> Inr (lhs = rhs))"

text \<open>\<^verbatim>\<open>isPractitionerRolePermitted\<close> (lines 225 to 231). The callback on a consent is
  \<^verbatim>\<open>A && B && C\<close>: \<open>A\<close> asks for an actor with a coding of code GRANTEE, \<open>B\<close> for the
  provision type permit, and \<open>C\<close> for an actor whose reference ends with the id of the role
  and, inside the same callback, for equal patient references of consent and device.\<close>

definition hasGranteeCoding :: "ConsentProvisionActor \<Rightarrow> error + bool" where
  "hasGranteeCoding act =
     (case coding (role act) of
        None \<Rightarrow> Inl TypeError
      | Some codings \<Rightarrow> Inr (list_ex (\<lambda>cod. code cod = Some ''GRANTEE'') codings))"

definition provisionActors :: "Consent \<Rightarrow> error + ConsentProvisionActor list" where
  "provisionActors con =
     (case provision con of
        None \<Rightarrow> Inl TypeError
      | Some prov \<Rightarrow> (case actor prov of None \<Rightarrow> Inl TypeError | Some actors \<Rightarrow> Inr actors))"

definition provisionTypeOf :: "Consent \<Rightarrow> error + string option" where
  "provisionTypeOf con =
     (case provision con of None \<Rightarrow> Inl TypeError | Some prov \<Rightarrow> Inr (provisionType prov))"

definition samePatientReference :: "Consent \<Rightarrow> fhirDevice \<Rightarrow> error + bool" where
  "samePatientReference con dev =
     (case referenceOf (consentPatient con) of
        Inl e \<Rightarrow> Inl e
      | Inr lhs \<Rightarrow> (case referenceOf (patient dev) of
                      Inl e \<Rightarrow> Inl e
                    | Inr rhs \<Rightarrow> Inr (lhs = rhs)))"

definition isPractitionerRolePermitted ::
  "Consent list \<Rightarrow> PractitionerRole \<Rightarrow> fhirDevice \<Rightarrow> error + bool" where
  "isPractitionerRolePermitted consents practitionerRole dev =
     some' (\<lambda>con.
        and' (and' (case provisionActors con of
                      Inl e \<Rightarrow> Inl e
                    | Inr actors \<Rightarrow> some' hasGranteeCoding actors)
                   (case provisionTypeOf con of
                      Inl e \<Rightarrow> Inl e
                    | Inr t \<Rightarrow> Inr (t = Some ''permit'')))
             (case provisionActors con of
                Inl e \<Rightarrow> Inl e
              | Inr actors \<Rightarrow>
                  some' (\<lambda>act. and' (referenceEndsWith (Some (actorReference act)) (str (id' practitionerRole)))
                                     (samePatientReference con dev))
                        actors))
       consents"

section \<open>The filter stages of the handlers\<close>

text \<open>The three handlers compute their filtered lists with the same expressions: line 42,
  90 and 149 for patients, lines 93 to 94 and 150 to 151 for devices, lines 154 to 155 for
  observations. Each expression is one definition here, named after the variable it
  initialises.\<close>

definition filteredPatients :: "fhirPatient list \<Rightarrow> PractitionerRole \<Rightarrow> error + fhirPatient list" where
  "filteredPatients patients practitionerRole =
     filter' (\<lambda>pat. isPatientInPractitionerOrganization pat practitionerRole) patients"

definition filteredDevices ::
  "fhirPatient list \<Rightarrow> Consent list \<Rightarrow> PractitionerRole \<Rightarrow> fhirDevice list \<Rightarrow> error + fhirDevice list" where
  "filteredDevices filteredPats consents practitionerRole devices =
     filter' (\<lambda>dev.
        or' (some' (\<lambda>pat. referenceEndsWith (patient dev) (str (id' pat))) filteredPats)
            (and' (case referenceOf (owner dev) of
                     Inl e \<Rightarrow> Inl e
                   | Inr lhs \<Rightarrow> (case referenceOf (organization practitionerRole) of
                                   Inl e \<Rightarrow> Inl e
                                 | Inr rhs \<Rightarrow> Inr (lhs = rhs)))
                  (isPractitionerRolePermitted consents practitionerRole dev)))
       devices"

definition filteredObservations ::
  "fhirPatient list \<Rightarrow> fhirDevice list \<Rightarrow> fhirObservation list \<Rightarrow> error + fhirObservation list" where
  "filteredObservations filteredPats filteredDevs observations =
     filter' (\<lambda>obs.
        or' (some' (\<lambda>pat. referenceEndsWith (subject obs) (str (id' pat))) filteredPats)
            (some' (\<lambda>dev. referenceEndsWith (device obs) (str (id' dev))) filteredDevs))
       observations"

section \<open>The handlers\<close>

text \<open>The identity steps the three handlers share (lines 19 to 35, 54 to 70, 107 to 123):
  token and user id, then the practitioner, then the role. The handlers repeat these lines;
  here they are one definition. \<^verbatim>\<open>context.log\<close> only writes a log line and is left out.\<close>

definition resolveRole ::
  "(string \<Rightarrow> JwtCustomPayload option) \<Rightarrow> (string \<Rightarrow> string \<Rightarrow> error + Bundle option) \<Rightarrow> HttpRequest
     \<Rightarrow> error + (string \<times> PractitionerRole)" where
  "resolveRole jwtDecode fetch request =
     (case getAuthTokenAndUserId jwtDecode request of
        Inl unauthorizedError \<Rightarrow> Inl unauthorizedError
      | Inr (authToken, userId) \<Rightarrow>
          (case getUserPractitioner fetch authToken userId of
             Inl fetchError \<Rightarrow> Inl fetchError
           | Inr userPractitioner \<Rightarrow>
               (case getUserPractitionerRole fetch authToken userPractitioner of
                  Inl fetchError \<Rightarrow> Inl fetchError
                | Inr practitionerRole \<Rightarrow> Inr (authToken, practitionerRole))))"

text \<open>\<^verbatim>\<open>Patient\<close> (lines 16 to 45). A result \<open>Inr b\<close> is the response whose body is the
  serialised bundle \<open>b\<close>; \<open>Inl (HttpError n)\<close> is the response \<^verbatim>\<open>{ status: n }\<close>.\<close>

definition Patient ::
  "(string \<Rightarrow> JwtCustomPayload option) \<Rightarrow> (string \<Rightarrow> string \<Rightarrow> error + Bundle option) \<Rightarrow> HttpRequest
     \<Rightarrow> error + Bundle" where
  "Patient jwtDecode fetch request =
     (case resolveRole jwtDecode fetch request of
        Inl e \<Rightarrow> Inl e
      | Inr (authToken, practitionerRole) \<Rightarrow>
          (case getRessources fetch authToken ''Patient'' of
             Inl fetchError \<Rightarrow> Inl fetchError
           | Inr patients \<Rightarrow>
               (case filteredPatients (asPatients patients) practitionerRole of
                  Inl e \<Rightarrow> Inl e
                | Inr filteredPats \<Rightarrow> Inr (getSearchBundle (map PatientResource filteredPats)))))"

text \<open>\<^verbatim>\<open>Device\<close> (lines 52 to 98): patients, consents and devices are fetched in this
  order, then filtered.\<close>

definition Device ::
  "(string \<Rightarrow> JwtCustomPayload option) \<Rightarrow> (string \<Rightarrow> string \<Rightarrow> error + Bundle option) \<Rightarrow> HttpRequest
     \<Rightarrow> error + Bundle" where
  "Device jwtDecode fetch request =
     (case resolveRole jwtDecode fetch request of
        Inl e \<Rightarrow> Inl e
      | Inr (authToken, practitionerRole) \<Rightarrow>
          (case getRessources fetch authToken ''Patient'' of
             Inl fetchError \<Rightarrow> Inl fetchError
           | Inr patients \<Rightarrow>
          (case getRessources fetch authToken ''Consent'' of
             Inl fetchError \<Rightarrow> Inl fetchError
           | Inr consents \<Rightarrow>
          (case getRessources fetch authToken ''Device'' of
             Inl fetchError \<Rightarrow> Inl fetchError
           | Inr devices \<Rightarrow>
          (case filteredPatients (asPatients patients) practitionerRole of
             Inl e \<Rightarrow> Inl e
           | Inr filteredPats \<Rightarrow>
          (case filteredDevices filteredPats (asConsents consents) practitionerRole (asDevices devices) of
             Inl e \<Rightarrow> Inl e
           | Inr filteredDevs \<Rightarrow> Inr (getSearchBundle (map DeviceResource filteredDevs))))))))"

text \<open>\<^verbatim>\<open>Observation\<close> (lines 105 to 159).\<close>

definition Observation ::
  "(string \<Rightarrow> JwtCustomPayload option) \<Rightarrow> (string \<Rightarrow> string \<Rightarrow> error + Bundle option) \<Rightarrow> HttpRequest
     \<Rightarrow> error + Bundle" where
  "Observation jwtDecode fetch request =
     (case resolveRole jwtDecode fetch request of
        Inl e \<Rightarrow> Inl e
      | Inr (authToken, practitionerRole) \<Rightarrow>
          (case getRessources fetch authToken ''Patient'' of
             Inl fetchError \<Rightarrow> Inl fetchError
           | Inr patients \<Rightarrow>
          (case getRessources fetch authToken ''Consent'' of
             Inl fetchError \<Rightarrow> Inl fetchError
           | Inr consents \<Rightarrow>
          (case getRessources fetch authToken ''Device'' of
             Inl fetchError \<Rightarrow> Inl fetchError
           | Inr devices \<Rightarrow>
          (case getRessources fetch authToken ''Observation'' of
             Inl fetchError \<Rightarrow> Inl fetchError
           | Inr observations \<Rightarrow>
          (case filteredPatients (asPatients patients) practitionerRole of
             Inl e \<Rightarrow> Inl e
           | Inr filteredPats \<Rightarrow>
          (case filteredDevices filteredPats (asConsents consents) practitionerRole (asDevices devices) of
             Inl e \<Rightarrow> Inl e
           | Inr filteredDevs \<Rightarrow>
          (case filteredObservations filteredPats filteredDevs (asObservations observations) of
             Inl e \<Rightarrow> Inl e
           | Inr filteredObs \<Rightarrow> Inr (getSearchBundle (map ObservationResource filteredObs))))))))))"

section \<open>The statements of the specification\<close>

text \<open>The specification speaks of a reference that suffix-matches a path segment and of
  two references that are equal. These predicates say so on the data alone, with no
  failure: a missing reference matches nothing.\<close>

definition suffixMatches :: "Reference option \<Rightarrow> string \<Rightarrow> bool" where
  "suffixMatches x segment =
     (case x of
        None \<Rightarrow> False
      | Some r \<Rightarrow> (case reference r of None \<Rightarrow> False | Some s \<Rightarrow> suffix segment s))"

definition referencesEqual :: "Reference option \<Rightarrow> Reference option \<Rightarrow> bool" where
  "referencesEqual x y =
     (case x of
        None \<Rightarrow> False
      | Some a \<Rightarrow> (case y of None \<Rightarrow> False | Some b \<Rightarrow> reference a = reference b))"

text \<open>Membership (4.4): the managing-organization reference of the patient, absent when the
  patient names no managing organization, equals the organization reference of the role.\<close>

definition managingOrganizationReference :: "fhirPatient \<Rightarrow> string option" where
  "managingOrganizationReference pat =
     (case managingOrganization pat of None \<Rightarrow> None | Some m \<Rightarrow> reference m)"

definition inOrganization :: "fhirPatient \<Rightarrow> PractitionerRole \<Rightarrow> bool" where
  "inOrganization pat practitionerRole =
     (case organization practitionerRole of
        None \<Rightarrow> False
      | Some org \<Rightarrow> managingOrganizationReference pat = reference org)"

text \<open>The four conditions of the Consent Evaluator (4.6), each a property of the whole
  consent record.\<close>

definition actorGrants :: "Consent \<Rightarrow> ConsentProvisionActor list" where
  "actorGrants con =
     (case provision con of
        None \<Rightarrow> []
      | Some prov \<Rightarrow> (case actor prov of None \<Rightarrow> [] | Some actors \<Rightarrow> actors))"

definition provisionIsPermit :: "Consent \<Rightarrow> bool" where
  "provisionIsPermit con =
     (case provision con of None \<Rightarrow> False | Some prov \<Rightarrow> provisionType prov = Some ''permit'')"

definition carriesGrantee :: "ConsentProvisionActor \<Rightarrow> bool" where
  "carriesGrantee act =
     (case coding (role act) of
        None \<Rightarrow> False
      | Some codings \<Rightarrow> list_ex (\<lambda>cod. code cod = Some ''GRANTEE'') codings)"

definition someGrantee :: "Consent \<Rightarrow> bool" where
  "someGrantee con = list_ex carriesGrantee (actorGrants con)"

definition someActorIsRole :: "Consent \<Rightarrow> PractitionerRole \<Rightarrow> bool" where
  "someActorIsRole con practitionerRole =
     list_ex (\<lambda>act. suffixMatches (Some (actorReference act)) (str (id' practitionerRole)))
             (actorGrants con)"

definition samePatient :: "Consent \<Rightarrow> fhirDevice \<Rightarrow> bool" where
  "samePatient con dev = referencesEqual (consentPatient con) (patient dev)"

definition qualifies :: "Consent \<Rightarrow> PractitionerRole \<Rightarrow> fhirDevice \<Rightarrow> bool" where
  "qualifies con practitionerRole dev \<longleftrightarrow>
     provisionIsPermit con \<and> someGrantee con \<and> someActorIsRole con practitionerRole
       \<and> samePatient con dev"

text \<open>Device eligibility (4.5) and observation eligibility (4.7).\<close>

definition patientIsFiltered :: "fhirDevice \<Rightarrow> fhirPatient list \<Rightarrow> bool" where
  "patientIsFiltered dev filteredPats =
     list_ex (\<lambda>pat. suffixMatches (patient dev) (str (id' pat))) filteredPats"

definition ownerIsOrganization :: "fhirDevice \<Rightarrow> PractitionerRole \<Rightarrow> bool" where
  "ownerIsOrganization dev practitionerRole =
     referencesEqual (owner dev) (organization practitionerRole)"

definition subjectIsFiltered :: "fhirObservation \<Rightarrow> fhirPatient list \<Rightarrow> bool" where
  "subjectIsFiltered obs filteredPats =
     list_ex (\<lambda>pat. suffixMatches (subject obs) (str (id' pat))) filteredPats"

definition deviceIsFiltered :: "fhirObservation \<Rightarrow> fhirDevice list \<Rightarrow> bool" where
  "deviceIsFiltered obs filteredDevs =
     list_ex (\<lambda>dev. suffixMatches (device obs) (str (id' dev))) filteredDevs"

text \<open>Resolution (4.3): a practitioner carries the user id as an identifier value; a role
  refers to the practitioner by the path segment \<^verbatim>\<open>Practitioner/id\<close>.\<close>

definition hasIdentifierValue :: "string option \<Rightarrow> Practitioner \<Rightarrow> bool" where
  "hasIdentifierValue userId pr =
     (case identifier' pr of
        None \<Rightarrow> False
      | Some identifiers \<Rightarrow> userId \<in> set (map value' identifiers))"

definition refersToPractitioner :: "Practitioner \<Rightarrow> PractitionerRole \<Rightarrow> bool" where
  "refersToPractitioner pr practitionerRole =
     suffixMatches (practitioner practitionerRole) (''Practitioner/'' @ str (id' pr))"

text \<open>The comparison the specification describes in general (section 3): the child
  reference ends with the canonical path segment \<^verbatim>\<open>Kind/id\<close> of the parent. These two
  predicates follow those words for the patient reference of a device and for the actor
  references of a consent; they are compared with what the filters compute.\<close>

definition canonicalSegment :: "string \<Rightarrow> string option \<Rightarrow> string" where
  "canonicalSegment kind i = kind @ ''/'' @ str i"

definition patientIsFilteredCanonically :: "fhirDevice \<Rightarrow> fhirPatient list \<Rightarrow> bool" where
  "patientIsFilteredCanonically dev filteredPats =
     list_ex (\<lambda>pat. suffixMatches (patient dev) (canonicalSegment ''Patient'' (id' pat))) filteredPats"

definition someActorIsRoleCanonically :: "Consent \<Rightarrow> PractitionerRole \<Rightarrow> bool" where
  "someActorIsRoleCanonically con practitionerRole =
     list_ex (\<lambda>act. suffixMatches (Some (actorReference act))
                      (canonicalSegment ''PractitionerRole'' (id' practitionerRole)))
             (actorGrants con)"

text \<open>The resources of the entries of a bundle that are of the kind asked for (4.2, 6).\<close>

definition entriesOfKind :: "string \<Rightarrow> BundleEntry list \<Rightarrow> FhirResource list" where
  "entriesOfKind endpoint entries =
     filter (\<lambda>res. resourceType res = endpoint) (List.map_filter resource entries)"

definition completeEntries :: "BundleEntry list \<Rightarrow> bool" where
  "completeEntries entries = list_all (\<lambda>ent. resource ent \<noteq> None) entries"

text \<open>Data on which no property read by the filters is missing. The typings make all of
  these properties optional; the filters read them unguarded.\<close>

definition hasReference :: "Reference option \<Rightarrow> bool" where
  "hasReference x = (case x of None \<Rightarrow> False | Some r \<Rightarrow> reference r \<noteq> None)"

definition completeConsent :: "Consent \<Rightarrow> bool" where
  "completeConsent con =
     (case provision con of
        None \<Rightarrow> False
      | Some prov \<Rightarrow>
          (case actor prov of
             None \<Rightarrow> False
           | Some actors \<Rightarrow>
               list_all (\<lambda>act. coding (role act) \<noteq> None \<and> reference (actorReference act) \<noteq> None) actors
               \<and> consentPatient con \<noteq> None))"

definition completeDevice :: "fhirDevice \<Rightarrow> bool" where
  "completeDevice dev \<longleftrightarrow> hasReference (patient dev) \<and> owner dev \<noteq> None"

definition completeObservation :: "fhirObservation \<Rightarrow> bool" where
  "completeObservation obs \<longleftrightarrow> hasReference (subject obs) \<and> hasReference (device obs)"

section \<open>Example data\<close>

text \<open>The scenario of the specification: organization 1 with patient P1, organization 2
  with patient P2, a practitioner A whose role R1 binds them to organization 1, a device D1
  of patient P2 owned by organization 1, and a consent of patient P2 that permits role R1.\<close>

definition ref :: "string \<Rightarrow> Reference option" where
  "ref s = Some \<lparr> reference = Some s \<rparr>"

definition exPractitioner :: Practitioner where
  "exPractitioner = \<lparr> id' = Some ''A'', identifier' = Some [\<lparr> value' = Some ''user-1'' \<rparr>] \<rparr>"

definition exRole :: PractitionerRole where
  "exRole = \<lparr> id' = Some ''R1'', practitioner = ref ''Practitioner/A'',
              organization = ref ''Organization/1'' \<rparr>"

definition exPatient1 :: fhirPatient where
  "exPatient1 = \<lparr> id' = Some ''P1'', managingOrganization = ref ''Organization/1'' \<rparr>"

definition exPatient2 :: fhirPatient where
  "exPatient2 = \<lparr> id' = Some ''P2'', managingOrganization = ref ''Organization/2'' \<rparr>"

definition exDevice1 :: fhirDevice where
  "exDevice1 = \<lparr> id' = Some ''D1'', patient = ref ''Patient/P2'', owner = ref ''Organization/1'' \<rparr>"

definition exDevice2 :: fhirDevice where
  "exDevice2 = \<lparr> id' = Some ''D2'', patient = ref ''Patient/P1'', owner = ref ''Organization/2'' \<rparr>"

definition exDevice3 :: fhirDevice where
  "exDevice3 = \<lparr> id' = Some ''D3'', patient = ref ''Patient/P2'', owner = ref ''Organization/2'' \<rparr>"

definition exConsent :: Consent where
  "exConsent =
     \<lparr> id' = Some ''C1'', consentPatient = ref ''Patient/P2'',
       provision = Some \<lparr> provisionType = Some ''permit'',
                          actor = Some [\<lparr> role = \<lparr> coding = Some [\<lparr> code = Some ''GRANTEE'' \<rparr>] \<rparr>,
                                          actorReference = \<lparr> reference = Some ''PractitionerRole/R1'' \<rparr> \<rparr>] \<rparr> \<rparr>"

definition exObservation1 :: fhirObservation where
  "exObservation1 = \<lparr> id' = Some ''O1'', subject = ref ''Patient/P1'', device = ref ''Device/D9'' \<rparr>"

definition exObservation2 :: fhirObservation where
  "exObservation2 = \<lparr> id' = Some ''O2'', subject = ref ''Patient/P2'', device = ref ''Device/D1'' \<rparr>"

definition exObservation3 :: fhirObservation where
  "exObservation3 = \<lparr> id' = Some ''O3'', subject = ref ''Patient/P2'', device = ref ''Device/D3'' \<rparr>"

text \<open>An upstream server that answers every request with one bundle of the given
  resources, whatever the kind asked for.\<close>

definition bundleOf :: "FhirResource list \<Rightarrow> Bundle" where
  "bundleOf ressources =
     \<lparr> resourceType' = Some ''Bundle'', bundleType = Some ''searchset'',
       entry = Some (map (\<lambda>res. \<lparr> fullUrl = None, resource = Some res, search = None \<rparr>) ressources) \<rparr>"

definition serving :: "FhirResource list \<Rightarrow> string \<Rightarrow> string \<Rightarrow> error + Bundle option" where
  "serving ressources u authToken = Inr (Some (bundleOf ressources))"

definition exServer :: "string \<Rightarrow> string \<Rightarrow> error + Bundle option" where
  "exServer = serving [PractitionerResource exPractitioner, PractitionerRoleResource exRole,
                       PatientResource exPatient1, PatientResource exPatient2,
                       DeviceResource exDevice1, ConsentResource exConsent]"

text \<open>An empty search result as FHIR servers send it: a bundle without the entry list.\<close>

definition emptySearchset :: Bundle where
  "emptySearchset = \<lparr> resourceType' = Some ''Bundle'', bundleType = Some ''searchset'', entry = None \<rparr>"

text \<open>A server that answers with an OperationOutcome instead of a bundle.\<close>

definition operationOutcome :: Bundle where
  "operationOutcome = \<lparr> resourceType' = Some ''OperationOutcome'', bundleType = None, entry = None \<rparr>"

definition failingServer :: "string \<Rightarrow> string \<Rightarrow> error + Bundle option" where
  "failingServer u authToken = Inr (Some operationOutcome)"

definition serverWithoutConsents :: "string \<Rightarrow> string \<Rightarrow> error + Bundle option" where
  "serverWithoutConsents u authToken =
     (if u = fhirURL @ ''/Consent'' then Inr (Some emptySearchset) else exServer u authToken)"

text \<open>A role whose organization is given by display name only, a patient without managing
  organization, a practitioner whose identifier has no value, and a credential whose claims
  carry no \<^verbatim>\<open>oid\<close>.\<close>

definition roleWithoutOrganizationReference :: PractitionerRole where
  "roleWithoutOrganizationReference =
     \<lparr> id' = Some ''R2'', practitioner = ref ''Practitioner/B'',
       organization = Some \<lparr> reference = None \<rparr> \<rparr>"

definition roleWithoutOrganization :: PractitionerRole where
  "roleWithoutOrganization =
     \<lparr> id' = Some ''R3'', practitioner = ref ''Practitioner/B'', organization = None \<rparr>"

definition patientWithoutOrganization :: fhirPatient where
  "patientWithoutOrganization = \<lparr> id' = Some ''P3'', managingOrganization = None \<rparr>"

definition practitionerWithoutValue :: Practitioner where
  "practitionerWithoutValue = \<lparr> id' = Some ''B'', identifier' = Some [\<lparr> value' = None \<rparr>] \<rparr>"

definition roleOfB :: PractitionerRole where
  "roleOfB = \<lparr> id' = Some ''R4'', practitioner = ref ''Practitioner/B'',
               organization = ref ''Organization/1'' \<rparr>"

definition decodeWithoutOid :: "string \<Rightarrow> JwtCustomPayload option" where
  "decodeWithoutOid authToken = Some \<lparr> oid = None \<rparr>"

definition decodeUser1 :: "string \<Rightarrow> JwtCustomPayload option" where
  "decodeUser1 authToken = Some \<lparr> oid = Some ''user-1'' \<rparr>"

definition decodeNothing :: "string \<Rightarrow> JwtCustomPayload option" where
  "decodeNothing authToken = None"

definition serverOfB :: "string \<Rightarrow> string \<Rightarrow> error + Bundle option" where
  "serverOfB = serving [PractitionerResource practitionerWithoutValue, PractitionerRoleResource roleOfB,
                        PatientResource exPatient1, PatientResource exPatient2]"

definition exRequest :: HttpRequest where
  "exRequest = \<lparr> url = ''/api/Patient'', authorization = Some ''Bearer t'' \<rparr>"

text \<open>Ids of which one is a proper suffix of the other: patient 2 and a device of
  patient 12, role R1 and a consent for role XR1.\<close>

definition patientTwo :: fhirPatient where
  "patientTwo = \<lparr> id' = Some ''2'', managingOrganization = ref ''Organization/1'' \<rparr>"

definition deviceOfPatientTwelve :: fhirDevice where
  "deviceOfPatientTwelve =
     \<lparr> id' = Some ''D12'', patient = ref ''Patient/12'', owner = ref ''Organization/2'' \<rparr>"

definition consentForRoleXR1 :: Consent where
  "consentForRoleXR1 =
     \<lparr> id' = Some ''C2'', consentPatient = ref ''Patient/P2'',
       provision = Some \<lparr> provisionType = Some ''permit'',
                          actor = Some [\<lparr> role = \<lparr> coding = Some [\<lparr> code = Some ''GRANTEE'' \<rparr>] \<rparr>,
                                          actorReference = \<lparr> reference = Some ''PractitionerRole/XR1'' \<rparr> \<rparr>] \<rparr> \<rparr>"

text \<open>Resources with one optional property missing: a consent without provision, a device
  without patient, an observation without device and a role without practitioner (a vacant
  position). Each is valid FHIR.\<close>

definition consentWithoutProvision :: Consent where
  "consentWithoutProvision =
     \<lparr> id' = Some ''C3'', consentPatient = ref ''Patient/P2'', provision = None \<rparr>"

definition deviceWithoutPatient :: fhirDevice where
  "deviceWithoutPatient = \<lparr> id' = Some ''D4'', patient = None, owner = ref ''Organization/2'' \<rparr>"

definition observationWithoutDevice :: fhirObservation where
  "observationWithoutDevice = \<lparr> id' = Some ''O4'', subject = ref ''Patient/P2'', device = None \<rparr>"

definition roleWithoutPractitioner :: PractitionerRole where
  "roleWithoutPractitioner =
     \<lparr> id' = Some ''R5'', practitioner = None, organization = ref ''Organization/1'' \<rparr>"

definition serverWithVacantRole :: "string \<Rightarrow> string \<Rightarrow> error + Bundle option" where
  "serverWithVacantRole =
     serving [PractitionerResource exPractitioner, PractitionerRoleResource exRole,
              PractitionerRoleResource roleWithoutPractitioner]"

text \<open>Several candidates: a second practitioner with the identifier value of the first, and
  a second role of practitioner A.\<close>

definition exPractitionerTwin :: Practitioner where
  "exPractitionerTwin = \<lparr> id' = Some ''A2'', identifier' = Some [\<lparr> value' = Some ''user-1'' \<rparr>] \<rparr>"

definition exRoleTwin :: PractitionerRole where
  "exRoleTwin = \<lparr> id' = Some ''R6'', practitioner = ref ''Practitioner/A'',
                  organization = ref ''Organization/2'' \<rparr>"

definition serverWithTwins :: "string \<Rightarrow> string \<Rightarrow> error + Bundle option" where
  "serverWithTwins =
     serving [PractitionerResource exPractitioner, PractitionerResource exPractitionerTwin,
              PractitionerRoleResource exRole, PractitionerRoleResource exRoleTwin]"

text \<open>A server whose answer is the JSON value \<^verbatim>\<open>null\<close>, and the server of practitioner A
  that stores patient 2 and the device of patient 12.\<close>

definition nullServer :: "string \<Rightarrow> string \<Rightarrow> error + Bundle option" where
  "nullServer u authToken = Inr None"

definition serverOfPatientTwo :: "string \<Rightarrow> string \<Rightarrow> error + Bundle option" where
  "serverOfPatientTwo =
     serving [PractitionerResource exPractitioner, PractitionerRoleResource exRole,
              PatientResource patientTwo, DeviceResource deviceOfPatientTwelve]"

section \<open>Evaluation rules\<close>

lemmas model_defs = or'_def and'_def str_def endsWith_def suffix_to_prefix referenceEndsWith_def
  referenceOf_def getAuthTokenAndUserId_def getSearchBundle_def getRessources_def
  getUserPractitionerRole_def getUserPractitioner_def isPatientInPractitionerOrganization_def
  hasGranteeCoding_def provisionActors_def provisionTypeOf_def samePatientReference_def
  isPractitionerRolePermitted_def filteredPatients_def filteredDevices_def filteredObservations_def
  resolveRole_def Patient_def Device_def Observation_def List.map_filter_def

lemmas spec_defs = suffixMatches_def referencesEqual_def managingOrganizationReference_def
  inOrganization_def actorGrants_def provisionIsPermit_def carriesGrantee_def someGrantee_def
  someActorIsRole_def samePatient_def qualifies_def patientIsFiltered_def ownerIsOrganization_def
  subjectIsFiltered_def deviceIsFiltered_def hasIdentifierValue_def refersToPractitioner_def
  hasReference_def completeConsent_def completeDevice_def completeObservation_def
  canonicalSegment_def patientIsFilteredCanonically_def someActorIsRoleCanonically_def
  entriesOfKind_def completeEntries_def

lemmas ex_defs = ref_def exPractitioner_def exRole_def exPatient1_def exPatient2_def exDevice1_def
  exDevice2_def exDevice3_def exConsent_def exObservation1_def exObservation2_def exObservation3_def
  bundleOf_def serving_def exServer_def emptySearchset_def serverWithoutConsents_def
  operationOutcome_def failingServer_def
  roleWithoutOrganizationReference_def
  roleWithoutOrganization_def patientWithoutOrganization_def practitionerWithoutValue_def
  roleOfB_def decodeWithoutOid_def decodeUser1_def decodeNothing_def serverOfB_def exRequest_def patientTwo_def
  deviceOfPatientTwelve_def consentForRoleXR1_def
  consentWithoutProvision_def deviceWithoutPatient_def observationWithoutDevice_def
  roleWithoutPractitioner_def serverWithVacantRole_def exPractitionerTwin_def exRoleTwin_def
  serverWithTwins_def nullServer_def serverOfPatientTwo_def

section \<open>Short-circuit operators and array methods\<close>

lemma or'_Inr_iff: "or' a b = Inr r \<longleftrightarrow> (a = Inr True \<and> r) \<or> (a = Inr False \<and> b = Inr r)"
  by (auto simp: or'_def split: sum.splits)


lemma some'_Inr_True: "some' f xs = Inr True \<Longrightarrow> \<exists>x\<in>set xs. f x = Inr True"
  by (induction xs) (auto simp: or'_Inr_iff)

lemma some'_Inr_False: "some' f xs = Inr False \<Longrightarrow> \<forall>x\<in>set xs. f x = Inr False"
  by (induction xs) (auto simp: or'_Inr_iff)

lemma some'_Inr: "some' f xs = Inr r \<Longrightarrow> r = (\<exists>x\<in>set xs. f x = Inr True)"
  using some'_Inr_True [of f xs] some'_Inr_False [of f xs] by (cases r) auto


lemma filter'_Inr:
  "filter' f xs = Inr ys \<Longrightarrow> (\<forall>x\<in>set xs. \<exists>b. f x = Inr b) \<and> ys = filter (\<lambda>x. f x = Inr True) xs"
proof (induction xs arbitrary: ys)
  case Nil
  then show ?case by simp
next
  case (Cons x xs)
  from Cons.prems obtain b zs where fx: "f x = Inr b" and rest: "filter' f xs = Inr zs"
    and ys: "ys = (if b then x # zs else zs)"
    by (auto split: sum.splits)
  from Cons.IH [OF rest] fx ys show ?case by auto
qed

lemma filter'_pure: "\<forall>x\<in>set xs. f x = Inr (P x) \<Longrightarrow> filter' f xs = Inr (filter P xs)"
  by (induction xs) auto


subsection \<open>The functions agree with the statements of the specification\<close>



lemma suffixMatches_imp: "suffixMatches x seg \<Longrightarrow> referenceEndsWith x seg = Inr True"
  by (auto simp: referenceEndsWith_def suffixMatches_def endsWith_def split: option.splits)




lemma isPatientInPractitionerOrganization_complete:
  "organization r \<noteq> None \<Longrightarrow> isPatientInPractitionerOrganization p r = Inr (inOrganization p r)"
  by (auto simp: isPatientInPractitionerOrganization_def inOrganization_def referenceOf_def
       managingOrganizationReference_def Let_def split: option.splits)


lemma filteredPatients_complete:
  "organization r \<noteq> None \<Longrightarrow> filteredPatients ps r = Inr (filter (\<lambda>p. inOrganization p r) ps)"
  unfolding filteredPatients_def
  by (rule filter'_pure) (simp add: isPatientInPractitionerOrganization_complete)
























subsection \<open>Resolution of practitioner and role\<close>


lemma identifier_callback:
  "(\<lambda>pr. case identifier' pr of None \<Rightarrow> False
          | Some identifiers \<Rightarrow> list_ex (\<lambda>ident. value' ident = userId) identifiers)
   = hasIdentifierValue userId"
  by (auto simp: fun_eq_iff hasIdentifierValue_def list_ex_iff split: option.splits)

lemma getUserPractitioner_fetched:
  assumes "getRessources fetch authToken ''Practitioner'' = Inr ps"
  shows "getUserPractitioner fetch authToken userId =
           (if length (filter (hasIdentifierValue userId) (asPractitioners ps)) \<noteq> 1
            then Inl (HttpError 403)
            else Inr (filter (hasIdentifierValue userId) (asPractitioners ps) ! 0))"
  using assms by (simp add: getUserPractitioner_def identifier_callback Let_def)


subsection \<open>The Resource Fetcher\<close>

lemma map_filter_resource_filter:
  "List.map_filter resource
     (filter (\<lambda>ent. case resource ent of None \<Rightarrow> False | Some res \<Rightarrow> resourceType res = endpoint) entries)
   = filter (\<lambda>res. resourceType res = endpoint) (List.map_filter resource entries)"
  by (induction entries) (auto simp: List.map_filter_def split: option.splits)

lemma getRessources_not_Bundle:
  assumes "fetch (fhirURL @ ''/'' @ endpoint) authToken = Inr (Some body)"
    and "resourceType' body \<noteq> Some ''Bundle''"
  shows "getRessources fetch authToken endpoint = Inl (HttpError 500)"
  using assms by (simp add: getRessources_def)

lemma getRessources_Bundle:
  assumes "fetch (fhirURL @ ''/'' @ endpoint) authToken = Inr (Some body)"
    and "resourceType' body = Some ''Bundle''" and "entry body = Some entries"
    and "completeEntries entries"
  shows "getRessources fetch authToken endpoint = Inr (entriesOfKind endpoint entries)"
proof -
  have "filter' (\<lambda>ent. case resource ent of None \<Rightarrow> Inl TypeError
                        | Some res \<Rightarrow> Inr (resourceType res = endpoint)) entries
        = Inr (filter (\<lambda>ent. case resource ent of None \<Rightarrow> False
                              | Some res \<Rightarrow> resourceType res = endpoint) entries)"
    by (rule filter'_pure)
       (use assms(4) in \<open>auto simp: completeEntries_def list_all_iff split: option.splits\<close>)
  with assms(1-3) show ?thesis
    by (simp add: getRessources_def entriesOfKind_def map_filter_resource_filter)
qed

lemma getRessources_serving:
  "getRessources (serving ressources) authToken endpoint
   = Inr (filter (\<lambda>res. resourceType res = endpoint) ressources)"
proof -
  let ?es = "map (\<lambda>res. \<lparr> fullUrl = None, resource = Some res, search = None \<rparr>) ressources"
  have "getRessources (serving ressources) authToken endpoint = Inr (entriesOfKind endpoint ?es)"
    by (rule getRessources_Bundle [where body = "bundleOf ressources"])
       (simp_all add: serving_def bundleOf_def completeEntries_def list_all_iff)
  moreover have "List.map_filter resource ?es = ressources"
    by (induction ressources) (simp_all add: List.map_filter_def)
  ultimately show ?thesis by (simp add: entriesOfKind_def)
qed

lemma getRessources_Inr:
  assumes "getRessources fetch authToken endpoint = Inr ressources"
  shows "\<exists>body entries. fetch (fhirURL @ ''/'' @ endpoint) authToken = Inr (Some body)
           \<and> resourceType' body = Some ''Bundle'' \<and> entry body = Some entries
           \<and> completeEntries entries \<and> ressources = entriesOfKind endpoint entries"
proof -
  from assms obtain body entries kept where
    f: "fetch (fhirURL @ ''/'' @ endpoint) authToken = Inr (Some body)"
    and t: "resourceType' body = Some ''Bundle''" and e: "entry body = Some entries"
    and k: "filter' (\<lambda>ent. case resource ent of None \<Rightarrow> Inl TypeError
                        | Some res \<Rightarrow> Inr (resourceType res = endpoint)) entries = Inr kept"
    by (auto simp: getRessources_def split: sum.splits option.splits if_splits)
  from filter'_Inr [OF k] have c: "completeEntries entries"
    by (auto simp: completeEntries_def list_all_iff split: option.splits)
  from getRessources_Bundle [where fetch = fetch and endpoint = endpoint and authToken = authToken
      and body = body and entries = entries] f t e c assms
  have "ressources = entriesOfKind endpoint entries"
    by simp
  with f t e c show ?thesis by blast
qed

lemma getRessources_kind:
  "getRessources fetch authToken endpoint = Inr ressources \<Longrightarrow>
     \<forall>res\<in>set ressources. resourceType res = endpoint"
  by (drule getRessources_Inr) (auto simp: entriesOfKind_def)

text \<open>The casts lose nothing: every resource the fetcher returns is of the kind asked for.\<close>

lemma asPatients_lossless:
  "\<forall>res\<in>set ressources. resourceType res = ''Patient'' \<Longrightarrow>
     map PatientResource (asPatients ressources) = ressources"
  by (induction ressources rule: asPatients.induct) auto

lemma asDevices_lossless:
  "\<forall>res\<in>set ressources. resourceType res = ''Device'' \<Longrightarrow>
     map DeviceResource (asDevices ressources) = ressources"
  by (induction ressources rule: asDevices.induct) auto

lemma asObservations_lossless:
  "\<forall>res\<in>set ressources. resourceType res = ''Observation'' \<Longrightarrow>
     map ObservationResource (asObservations ressources) = ressources"
  by (induction ressources rule: asObservations.induct) auto

lemma asPractitioners_lossless:
  "\<forall>res\<in>set ressources. resourceType res = ''Practitioner'' \<Longrightarrow>
     map PractitionerResource (asPractitioners ressources) = ressources"
  by (induction ressources rule: asPractitioners.induct) auto

lemma asPractitionerRoles_lossless:
  "\<forall>res\<in>set ressources. resourceType res = ''PractitionerRole'' \<Longrightarrow>
     map PractitionerRoleResource (asPractitionerRoles ressources) = ressources"
  by (induction ressources rule: asPractitionerRoles.induct) auto

lemma asConsents_lossless:
  "\<forall>res\<in>set ressources. resourceType res = ''Consent'' \<Longrightarrow>
     map ConsentResource (asConsents ressources) = ressources"
  by (induction ressources rule: asConsents.induct) auto

subsection \<open>The handlers\<close>

text \<open>A handler that answers with a bundle has resolved the role, fetched its lists and
  run its filter stages; the bundle wraps the last filtered list.\<close>

lemma Patient_Inr:
  assumes "Patient jwtDecode fetch request = Inr b"
  shows "\<exists>authToken r patients fps.
           resolveRole jwtDecode fetch request = Inr (authToken, r)
           \<and> getRessources fetch authToken ''Patient'' = Inr patients
           \<and> filteredPatients (asPatients patients) r = Inr fps
           \<and> b = getSearchBundle (map PatientResource fps)"
  using assms by (auto simp: Patient_def split: sum.splits prod.splits)

lemma Device_Inr:
  assumes "Device jwtDecode fetch request = Inr b"
  shows "\<exists>authToken r patients consents devices fps fds.
           resolveRole jwtDecode fetch request = Inr (authToken, r)
           \<and> getRessources fetch authToken ''Patient'' = Inr patients
           \<and> getRessources fetch authToken ''Consent'' = Inr consents
           \<and> getRessources fetch authToken ''Device'' = Inr devices
           \<and> filteredPatients (asPatients patients) r = Inr fps
           \<and> filteredDevices fps (asConsents consents) r (asDevices devices) = Inr fds
           \<and> b = getSearchBundle (map DeviceResource fds)"
  using assms by (auto simp: Device_def split: sum.splits prod.splits)

lemma Observation_Inr:
  assumes "Observation jwtDecode fetch request = Inr b"
  shows "\<exists>authToken r patients consents devices observations fps fds fos.
           resolveRole jwtDecode fetch request = Inr (authToken, r)
           \<and> getRessources fetch authToken ''Patient'' = Inr patients
           \<and> getRessources fetch authToken ''Consent'' = Inr consents
           \<and> getRessources fetch authToken ''Device'' = Inr devices
           \<and> getRessources fetch authToken ''Observation'' = Inr observations
           \<and> filteredPatients (asPatients patients) r = Inr fps
           \<and> filteredDevices fps (asConsents consents) r (asDevices devices) = Inr fds
           \<and> filteredObservations fps fds (asObservations observations) = Inr fos
           \<and> b = getSearchBundle (map ObservationResource fos)"
  using assms by (auto simp: Observation_def split: sum.splits prod.splits)

subsection \<open>The handlers after a failed resolution\<close>

lemma handlers_unresolved:
  assumes "resolveRole jwtDecode fetch request = Inl e"
  shows "Patient jwtDecode fetch request = Inl e"
    and "Device jwtDecode fetch request = Inl e"
    and "Observation jwtDecode fetch request = Inl e"
  using assms by (simp_all add: Patient_def Device_def Observation_def)

subsection \<open>What each comparison site tests\<close>

lemma role_site:
  "getUserPractitionerRole (serving [PractitionerRoleResource rl]) authToken pr = Inr rl
   \<longleftrightarrow> suffixMatches (practitioner rl) (canonicalSegment ''Practitioner'' (id' pr))"
  by (auto simp: getUserPractitionerRole_def getRessources_serving referenceEndsWith_def
        suffixMatches_def endsWith_def canonicalSegment_def split: option.splits)

lemma device_patient_site:
  "filteredDevices [pat] [] r [dev] = Inr [dev] \<longleftrightarrow> suffixMatches (patient dev) (str (id' pat))"
  by (auto simp: filteredDevices_def isPractitionerRolePermitted_def or'_def and'_def
        referenceEndsWith_def referenceOf_def suffixMatches_def endsWith_def
        split: option.splits sum.splits)

lemma observation_subject_site:
  "filteredObservations [pat] [] [obs] = Inr [obs] \<longleftrightarrow> suffixMatches (subject obs) (str (id' pat))"
  by (auto simp: filteredObservations_def or'_def referenceEndsWith_def suffixMatches_def
        endsWith_def split: option.splits sum.splits)

lemma observation_device_site:
  "filteredObservations [] [dev] [obs] = Inr [obs] \<longleftrightarrow> suffixMatches (device obs) (str (id' dev))"
  by (auto simp: filteredObservations_def or'_def referenceEndsWith_def suffixMatches_def
        endsWith_def split: option.splits sum.splits)

lemma patient_organization_site:
  "filteredPatients [pat] r = Inr [pat]
   \<longleftrightarrow> (\<exists>org. organization r = Some org \<and> managingOrganizationReference pat = reference org)"
  by (auto simp: filteredPatients_def isPatientInPractitionerOrganization_def referenceOf_def
        managingOrganizationReference_def Let_def split: option.splits)

section \<open>The claims\<close>

subsection \<open>Consent Evaluator\<close>




subsection \<open>Filter stages\<close>









text \<open>
  C5. No filter stage enlarges its input: whenever a stage returns, every element of its
  result is an element of the list it filtered, and the result is no longer than that list.
\<close>

theorem filter_stages_subset:
  "(\<forall>fps. filteredPatients patients r = Inr fps \<longrightarrow>
       set fps \<subseteq> set patients \<and> length fps \<le> length patients)
   \<and> (\<forall>fds. filteredDevices pats consents r devices = Inr fds \<longrightarrow>
       set fds \<subseteq> set devices \<and> length fds \<le> length devices)
   \<and> (\<forall>fos. filteredObservations pats devs observations = Inr fos \<longrightarrow>
       set fos \<subseteq> set observations \<and> length fos \<le> length observations)"
  unfolding filteredPatients_def filteredDevices_def filteredObservations_def
  by (auto dest!: filter'_Inr)

theorem filter_stages_subset_witness:
  "filteredPatients [exPatient1, exPatient2] exRole = Inr [exPatient1]
   \<and> filteredDevices [exPatient1] [exConsent] exRole [exDevice1, exDevice2, exDevice3]
       = Inr [exDevice1, exDevice2]
   \<and> filteredObservations [exPatient1] [exDevice1, exDevice2]
        [exObservation1, exObservation2, exObservation3] = Inr [exObservation1, exObservation2]
   \<and> set [exPatient1] \<subseteq> set [exPatient1, exPatient2]
   \<and> set [exDevice1, exDevice2] \<subseteq> set [exDevice1, exDevice2, exDevice3]
   \<and> set [exObservation1, exObservation2] \<subseteq> set [exObservation1, exObservation2, exObservation3]"
proof -
  have p: "filteredPatients [exPatient1, exPatient2] exRole = Inr [exPatient1]"
    by (simp add: model_defs ex_defs)
  have d: "filteredDevices [exPatient1] [exConsent] exRole [exDevice1, exDevice2, exDevice3]
       = Inr [exDevice1, exDevice2]"
    by (simp add: model_defs ex_defs)
  have o: "filteredObservations [exPatient1] [exDevice1, exDevice2]
        [exObservation1, exObservation2, exObservation3] = Inr [exObservation1, exObservation2]"
    by (simp add: model_defs ex_defs)
  from filter_stages_subset [of "[exPatient1, exPatient2]" exRole "[exPatient1]" "[exConsent]"
      "[exDevice1, exDevice2, exDevice3]" "[exDevice1, exDevice2]"
      "[exObservation1, exObservation2, exObservation3]"] p d o
  show ?thesis by blast
qed

subsection \<open>Practitioner and role resolution\<close>




subsection \<open>Identity Resolver\<close>

text \<open>
  C7, as amended. For a request with a non-empty Authorization header: when the credential
  cannot be decoded, the Identity Resolver fails with the error of the decoder, which is
  not the 401 of the missing header, and every handler fails with it whatever the upstream
  server holds, so nothing is fetched. When the credential decodes to claims without a
  subject id, the resolver does not fail: it returns the token with an undefined subject
  id, practitioner resolution runs with that id, and the handlers answer 403 when the
  number of fetched Practitioners with a value-less identifier is not one.
\<close>

theorem credential_decoding:
  "authorization request = Some authToken \<and> authToken \<noteq> [] \<longrightarrow>
     (jwtDecode authToken = None \<longrightarrow>
        getAuthTokenAndUserId jwtDecode request = Inl InvalidTokenError
        \<and> Patient jwtDecode fetch request = Inl InvalidTokenError
        \<and> Device jwtDecode fetch request = Inl InvalidTokenError
        \<and> Observation jwtDecode fetch request = Inl InvalidTokenError)
     \<and> (\<forall>payload. jwtDecode authToken = Some payload \<and> oid payload = None \<longrightarrow>
          getAuthTokenAndUserId jwtDecode request = Inr (authToken, None)
          \<and> resolveRole jwtDecode fetch request =
              (case getUserPractitioner fetch authToken None of
                 Inl fetchError \<Rightarrow> Inl fetchError
               | Inr userPractitioner \<Rightarrow>
                   (case getUserPractitionerRole fetch authToken userPractitioner of
                      Inl fetchError \<Rightarrow> Inl fetchError
                    | Inr practitionerRole \<Rightarrow> Inr (authToken, practitionerRole)))
          \<and> (\<forall>ps. getRessources fetch authToken ''Practitioner'' = Inr ps
                 \<and> length (filter (hasIdentifierValue None) (asPractitioners ps)) \<noteq> 1 \<longrightarrow>
               Patient jwtDecode fetch request = Inl (HttpError 403)
               \<and> Device jwtDecode fetch request = Inl (HttpError 403)
               \<and> Observation jwtDecode fetch request = Inl (HttpError 403)))"
proof (intro impI conjI allI)
  assume h: "authorization request = Some authToken \<and> authToken \<noteq> []"
  {
    assume d: "jwtDecode authToken = None"
    from h d show a: "getAuthTokenAndUserId jwtDecode request = Inl InvalidTokenError"
      by (simp add: getAuthTokenAndUserId_def)
    then have r: "resolveRole jwtDecode fetch request = Inl InvalidTokenError"
      by (simp add: resolveRole_def)
    from handlers_unresolved [OF r]
    show "Patient jwtDecode fetch request = Inl InvalidTokenError"
      and "Device jwtDecode fetch request = Inl InvalidTokenError"
      and "Observation jwtDecode fetch request = Inl InvalidTokenError" .
  }
  fix payload
  assume d: "jwtDecode authToken = Some payload \<and> oid payload = None"
  with h show a: "getAuthTokenAndUserId jwtDecode request = Inr (authToken, None)"
    by (auto simp: getAuthTokenAndUserId_def)
  then show r: "resolveRole jwtDecode fetch request =
              (case getUserPractitioner fetch authToken None of
                 Inl fetchError \<Rightarrow> Inl fetchError
               | Inr userPractitioner \<Rightarrow>
                   (case getUserPractitionerRole fetch authToken userPractitioner of
                      Inl fetchError \<Rightarrow> Inl fetchError
                    | Inr practitionerRole \<Rightarrow> Inr (authToken, practitionerRole)))"
    by (simp add: resolveRole_def)
  fix ps
  assume "getRessources fetch authToken ''Practitioner'' = Inr ps
            \<and> length (filter (hasIdentifierValue None) (asPractitioners ps)) \<noteq> 1"
  then have "getUserPractitioner fetch authToken None = Inl (HttpError 403)"
    by (simp add: getUserPractitioner_fetched)
  with r have "resolveRole jwtDecode fetch request = Inl (HttpError 403)" by simp
  from handlers_unresolved [OF this]
  show "Patient jwtDecode fetch request = Inl (HttpError 403)"
    and "Device jwtDecode fetch request = Inl (HttpError 403)"
    and "Observation jwtDecode fetch request = Inl (HttpError 403)" .
qed

theorem credential_decoding_witness:
  "authorization exRequest = Some ''Bearer t'' \<and> ''Bearer t'' \<noteq> []
   \<and> decodeNothing ''Bearer t'' = None
   \<and> Patient decodeNothing exServer exRequest = Inl InvalidTokenError
   \<and> decodeWithoutOid ''Bearer t'' = Some \<lparr> oid = None \<rparr>
   \<and> getAuthTokenAndUserId decodeWithoutOid exRequest = Inr (''Bearer t'', None)
   \<and> getRessources exServer ''Bearer t'' ''Practitioner'' = Inr [PractitionerResource exPractitioner]
   \<and> length (filter (hasIdentifierValue None) (asPractitioners [PractitionerResource exPractitioner])) \<noteq> 1
   \<and> Patient decodeWithoutOid exServer exRequest = Inl (HttpError 403)"
proof -
  have h: "authorization exRequest = Some ''Bearer t'' \<and> ''Bearer t'' \<noteq> []"
    by (simp add: ex_defs)
  have n: "decodeNothing ''Bearer t'' = None" by (simp add: ex_defs)
  have d: "decodeWithoutOid ''Bearer t'' = Some \<lparr> oid = None \<rparr> \<and> oid \<lparr> oid = None \<rparr> = None"
    by (simp add: ex_defs)
  have p: "getRessources exServer ''Bearer t'' ''Practitioner'' = Inr [PractitionerResource exPractitioner]"
    by (simp add: model_defs ex_defs)
  have l: "length (filter (hasIdentifierValue None) (asPractitioners [PractitionerResource exPractitioner])) \<noteq> 1"
    by (simp add: spec_defs ex_defs)
  from credential_decoding [of exRequest "''Bearer t''" decodeNothing exServer] h n
  have "Patient decodeNothing exServer exRequest = Inl InvalidTokenError" by blast
  moreover
  from credential_decoding [of exRequest "''Bearer t''" decodeWithoutOid exServer] h d p l
  have "getAuthTokenAndUserId decodeWithoutOid exRequest = Inr (''Bearer t'', None)"
    and "Patient decodeWithoutOid exServer exRequest = Inl (HttpError 403)"
    by blast+
  ultimately show ?thesis using h n d p l by simp
qed

text \<open>
  C7, as stated, fails. The credential of the request decodes to claims without
  \<^verbatim>\<open>oid\<close>. The resolver returns the token and an undefined user id with no error;
  practitioner resolution fetches the Practitioners and picks the one whose identifier has
  no value, and the Patient handler answers with the patients of that practitioner's
  organization.
\<close>

theorem credential_without_oid_counterexample:
  "authorization exRequest = Some ''Bearer t''
   \<and> decodeWithoutOid ''Bearer t'' = Some \<lparr> oid = None \<rparr>
   \<and> getAuthTokenAndUserId decodeWithoutOid exRequest = Inr (''Bearer t'', None)
   \<and> getUserPractitioner serverOfB ''Bearer t'' None = Inr practitionerWithoutValue
   \<and> Patient decodeWithoutOid serverOfB exRequest = Inr (getSearchBundle [PatientResource exPatient1])"
  by (simp add: model_defs ex_defs)

subsection \<open>Comparison modes\<close>

text \<open>
  C8. The claim asks for the canonical segment \<^verbatim>\<open>Kind/id\<close> at every suffix match. Role
  resolution does so (line 202, lemma \<open>role_site\<close>); the device filter and the Consent
  Evaluator call \<^verbatim>\<open>endsWith\<close> with the bare id (lines 93, 150 and 229). With the filtered
  patient 2 the device filter keeps the device of patient 12, although \<^verbatim>\<open>Patient/12\<close> does
  not end with \<^verbatim>\<open>Patient/2\<close> and neither owner nor consent lets the device in, and the
  Device handler returns that device to practitioner A. The Consent Evaluator permits role
  R1 on a consent whose only actor is \<^verbatim>\<open>PractitionerRole/XR1\<close>, which does not end with
  \<^verbatim>\<open>PractitionerRole/R1\<close>.
\<close>

theorem bare_id_suffix_match:
  "filteredDevices [patientTwo] [] exRole [deviceOfPatientTwelve] = Inr [deviceOfPatientTwelve]
   \<and> \<not> patientIsFilteredCanonically deviceOfPatientTwelve [patientTwo]
   \<and> \<not> ownerIsOrganization deviceOfPatientTwelve exRole
   \<and> Device decodeUser1 serverOfPatientTwo exRequest
       = Inr (getSearchBundle [DeviceResource deviceOfPatientTwelve])
   \<and> isPractitionerRolePermitted [consentForRoleXR1] exRole exDevice1 = Inr True
   \<and> \<not> someActorIsRoleCanonically consentForRoleXR1 exRole"
  by (simp add: model_defs spec_defs ex_defs)

subsection \<open>Resource Fetcher\<close>

text \<open>
  C9. The claim asks for the answer 500 on a body that is no collection envelope and for
  the entries of the requested kind on one that is. The fetcher checks the tag of the body
  (line 190) and nothing else. An empty search result is a body tagged Bundle without an
  entry list: on it the fetcher neither answers 500 nor returns the empty list, since
  reading \<^verbatim>\<open>filter\<close> of the missing entry list throws a TypeError, and so does the Device
  handler of a server that stores no consent. On the body \<^verbatim>\<open>null\<close> reading the tag throws
  a TypeError as well, where the claim asks for 500.
\<close>

theorem empty_searchset_throws:
  "serverWithoutConsents (fhirURL @ ''/'' @ ''Consent'') ''Bearer t'' = Inr (Some emptySearchset)
   \<and> resourceType' emptySearchset = Some ''Bundle''
   \<and> getRessources serverWithoutConsents ''Bearer t'' ''Consent'' = Inl TypeError
   \<and> Device decodeUser1 serverWithoutConsents exRequest = Inl TypeError
   \<and> getRessources nullServer ''Bearer t'' ''Consent'' = Inl TypeError"
  by (simp add: model_defs ex_defs)

subsection \<open>Patients without managing organization\<close>

text \<open>
  C10, as amended. For every patient whose managing-organization reference is absent and
  every role that carries an organization reference, the membership predicate does not
  fail and returns false, and the patient filter returns a list without that patient.
\<close>

theorem absent_managing_organization_excluded:
  assumes "managingOrganizationReference pat = None"
    and "organization r = Some org" and "reference org = Some s"
  shows "isPatientInPractitionerOrganization pat r = Inr False
         \<and> (\<exists>fps. filteredPatients patients r = Inr fps \<and> pat \<notin> set fps)"
proof
  show "isPatientInPractitionerOrganization pat r = Inr False"
    using assms
    by (simp add: isPatientInPractitionerOrganization_def referenceOf_def
          managingOrganizationReference_def Let_def)
  have "\<not> inOrganization pat r" using assms by (simp add: inOrganization_def)
  moreover have "filteredPatients patients r = Inr (filter (\<lambda>p. inOrganization p r) patients)"
    using assms(2) by (simp add: filteredPatients_complete)
  ultimately show "\<exists>fps. filteredPatients patients r = Inr fps \<and> pat \<notin> set fps" by simp
qed

theorem absent_managing_organization_excluded_witness:
  "managingOrganizationReference patientWithoutOrganization = None
   \<and> organization exRole = Some \<lparr> reference = Some ''Organization/1'' \<rparr>
   \<and> isPatientInPractitionerOrganization patientWithoutOrganization exRole = Inr False
   \<and> (\<exists>fps. filteredPatients [exPatient1, patientWithoutOrganization] exRole = Inr fps
          \<and> patientWithoutOrganization \<notin> set fps)"
proof -
  have m: "managingOrganizationReference patientWithoutOrganization = None"
    by (simp add: spec_defs ex_defs)
  have o: "organization exRole = Some \<lparr> reference = Some ''Organization/1'' \<rparr>"
    by (simp add: ex_defs)
  have s: "reference \<lparr> reference = Some ''Organization/1'' \<rparr> = Some ''Organization/1''" by simp
  from absent_managing_organization_excluded [OF m o s, of "[exPatient1, patientWithoutOrganization]"] m o
  show ?thesis by simp
qed

text \<open>
  C10, as stated, fails. For a role whose organization has no reference string the
  predicate compares two absent references, \<^verbatim>\<open>undefined === undefined\<close>, and returns true:
  the patient without managing organization stays in \<open>filteredPatients\<close>. For a role
  without organization the predicate throws a TypeError.
\<close>

theorem absent_references_counterexample:
  "managingOrganizationReference patientWithoutOrganization = None
   \<and> isPatientInPractitionerOrganization patientWithoutOrganization roleWithoutOrganizationReference
       = Inr True
   \<and> filteredPatients [patientWithoutOrganization] roleWithoutOrganizationReference
       = Inr [patientWithoutOrganization]
   \<and> isPatientInPractitionerOrganization patientWithoutOrganization roleWithoutOrganization
       = Inl TypeError"
  by (simp add: model_defs spec_defs ex_defs)

end
